theory Spec2Isabelle
  imports Complex_Main "HOL-Library.Word" "HOL-Library.AList" "HOL-Library.Sublist"
begin

section \<open>Strings of the runtime\<close>

text \<open>
  A JavaScript string is a sequence of 16-bit code units. String literals of the source
  are ASCII and are written \<open>U ''...''\<close>.
\<close>

type_synonym code_unit = "16 word"
type_synonym jsstring = "code_unit list"
type_synonym byte = "8 word"

definition U :: "string \<Rightarrow> jsstring" where
  "U s = map of_char s"

text \<open>
  \<^verbatim>\<open>String.prototype.toLowerCase\<close>. The mapping is the Unicode one for the code units
  below \<open>0x100\<close> (ASCII and Latin-1: \<open>A\<close>-\<open>Z\<close> and \<open>U+00C0\<close>-\<open>U+00DE\<close> without the
  multiplication sign); code units from \<open>0x100\<close> on are left as they are. No code unit
  outside ASCII lower-cases to one of the letters of \<open>pdf\<close>, \<open>jpg\<close>, \<open>jpeg\<close>, \<open>png\<close>.
\<close>

definition lower_unit :: "code_unit \<Rightarrow> code_unit" where
  "lower_unit c =
     (if (0x41 \<le> c \<and> c \<le> 0x5A) \<or> (0xC0 \<le> c \<and> c \<le> 0xDE \<and> c \<noteq> 0xD7)
      then c + 0x20 else c)"

definition toLowerCase :: "jsstring \<Rightarrow> jsstring" where
  "toLowerCase s = map lower_unit s"

text \<open>\<^verbatim>\<open>s.split(sep)\<close> for a separator of one code unit; \<open>cur\<close> is the segment being read.\<close>

fun split_from :: "code_unit \<Rightarrow> jsstring \<Rightarrow> jsstring \<Rightarrow> jsstring list" where
  "split_from sep cur [] = [cur]"
| "split_from sep cur (c # cs) =
     (if c = sep then cur # split_from sep [] cs else split_from sep (cur @ [c]) cs)"

definition split :: "code_unit \<Rightarrow> jsstring \<Rightarrow> jsstring list" where
  "split sep s = split_from sep [] s"

text \<open>\<^verbatim>\<open>s.substring(0, n)\<close> and \<^verbatim>\<open>s.substr(i, n)\<close> for indices that are not negative.\<close>

definition substring0 :: "nat \<Rightarrow> jsstring \<Rightarrow> jsstring" where
  "substring0 n s = take n s"

definition substr :: "nat \<Rightarrow> nat \<Rightarrow> jsstring \<Rightarrow> jsstring" where
  "substr i n s = take n (drop i s)"

text \<open>
  \<^verbatim>\<open>String.prototype.trim\<close> removes WhiteSpace and LineTerminator code units from both
  ends.
\<close>

definition is_white_space :: "code_unit \<Rightarrow> bool" where
  "is_white_space c \<longleftrightarrow>
     c \<in> set [0x09, 0x0A, 0x0B, 0x0C, 0x0D, 0x20, 0xA0, 0x1680, 0x2028, 0x2029,
              0x202F, 0x205F, 0x3000, 0xFEFF]
     \<or> (0x2000 \<le> c \<and> c \<le> 0x200A)"

definition trim :: "jsstring \<Rightarrow> jsstring" where
  "trim s = rev (dropWhile is_white_space (rev (dropWhile is_white_space s)))"

text \<open>A number that is a natural number, converted to a string (decimal digits).\<close>

fun decimal :: "nat \<Rightarrow> jsstring" where
  "decimal n =
     (if n < 10 then [of_nat (48 + n)] else decimal (n div 10) @ [of_nat (48 + n mod 10)])"

section \<open>Regular expressions\<close>

text \<open>
  The three regular expressions of the source are sequences of these atoms: a literal
  code unit, an optional literal code unit (\<^verbatim>\<open>\n?\<close>) and \<^verbatim>\<open>[\s\S]*\<close>, which takes any
  code units. \<open>match_here re s\<close> is the length of the match of \<open>re\<close> at the start of \<open>s\<close>
  that a backtracking matcher finds first: the greedy quantifiers try the longer
  alternative first and give code units back afterwards.
\<close>

datatype atom = Lit code_unit | Opt code_unit | AnyStar

fun match_here :: "atom list \<Rightarrow> jsstring \<Rightarrow> nat option" where
  "match_here [] s = Some 0"
| "match_here (Lit c # re) [] = None"
| "match_here (Lit c # re) (x # xs) =
     (if x = c then map_option Suc (match_here re xs) else None)"
| "match_here (Opt c # re) [] = match_here re []"
| "match_here (Opt c # re) (x # xs) =
     (if x = c
      then (case match_here re xs of
              Some n \<Rightarrow> Some (Suc n)
            | None \<Rightarrow> match_here re (x # xs))
      else match_here re (x # xs))"
| "match_here (AnyStar # re) [] = match_here re []"
| "match_here (AnyStar # re) (x # xs) =
     (case match_here (AnyStar # re) xs of
        Some n \<Rightarrow> Some (Suc n)
      | None \<Rightarrow> match_here re (x # xs))"

text \<open>The leftmost match: its index and its length.\<close>

fun search :: "atom list \<Rightarrow> jsstring \<Rightarrow> (nat \<times> nat) option" where
  "search re [] = map_option (Pair 0) (match_here re [])"
| "search re (x # xs) =
     (case match_here re (x # xs) of
        Some n \<Rightarrow> Some (0, n)
      | None \<Rightarrow> map_option (\<lambda>(i, n). (Suc i, n)) (search re xs))"

text \<open>
  \<^verbatim>\<open>s.match(re)\<close> for a regular expression without the \<^verbatim>\<open>g\<close> flag: element 0 of the
  result, the matched substring, or \<open>None\<close> for \<^verbatim>\<open>null\<close>.
\<close>

definition str_match :: "atom list \<Rightarrow> jsstring \<Rightarrow> jsstring option" where
  "str_match re s = map_option (\<lambda>(i, n). take n (drop i s)) (search re s)"

text \<open>
  \<^verbatim>\<open>s.replace(re, '')\<close> for a regular expression with the \<^verbatim>\<open>g\<close> flag: every match is
  left out, the search going on behind it; a code unit at which nothing matches is kept.
\<close>

function replace_all_empty :: "atom list \<Rightarrow> jsstring \<Rightarrow> jsstring" where
  "replace_all_empty re [] = []"
| "replace_all_empty re (x # xs) =
     (case match_here re (x # xs) of
        Some (Suc n) \<Rightarrow> replace_all_empty re (drop n xs)
      | _ \<Rightarrow> x # replace_all_empty re xs)"
  by pat_completeness auto
termination
  by (relation "measure (\<lambda>(re, s). length s)") auto

section \<open>JSON values and \<^verbatim>\<open>JSON.parse\<close>\<close>

text \<open>
  The objects that the handler receives, builds and sends are JSON values. An object is
  the list of its members in the order of their creation (the runtime lists keys that
  are array indices first, in numeric order; members are only looked up by key here).
  A number is the exact value of its literal (the runtime keeps the nearest double,
  which is the same number for every integer below \<open>2 ^ 53\<close>, and \<^verbatim>\<open>Infinity\<close> for a
  literal beyond the range of doubles).
\<close>

datatype json =
    JNull
  | JBool bool
  | JNum rat
  | JStr jsstring
  | JArr "json list"
  | JObj "(jsstring \<times> json) list"

text \<open>Reading a property: \<open>None\<close> is \<^verbatim>\<open>undefined\<close>.\<close>

fun field :: "jsstring \<Rightarrow> json \<Rightarrow> json option" where
  "field k (JObj ms) = map_of ms k"
| "field k _ = None"

subsection \<open>Tokens\<close>

datatype token = TLBrace | TRBrace | TLBracket | TRBracket | TColon | TComma | TLit json

definition is_digit :: "code_unit \<Rightarrow> bool" where
  "is_digit c \<longleftrightarrow> 0x30 \<le> c \<and> c \<le> 0x39"

definition digits_value :: "jsstring \<Rightarrow> nat" where
  "digits_value ds = foldl (\<lambda>n c. 10 * n + unat (c - 0x30)) 0 ds"

definition pow10 :: "int \<Rightarrow> rat" where
  "pow10 e = (if 0 \<le> e then 10 ^ nat e else 1 / 10 ^ nat (- e))"

text \<open>
  A number literal: \<^verbatim>\<open>-? (0 | [1-9][0-9]*) (. [0-9]+)? ([eE] [+-]? [0-9]+)?\<close>. Each part
  returns what it read and the rest of the text.
\<close>

definition scan_sign :: "jsstring \<Rightarrow> bool \<times> jsstring" where
  "scan_sign s = (case s of [] \<Rightarrow> (False, s) | c # r \<Rightarrow> if c = 0x2D then (True, r) else (False, s))"

definition scan_int :: "jsstring \<Rightarrow> (jsstring \<times> jsstring) option" where
  "scan_int s =
     (case s of
        [] \<Rightarrow> None
      | c # r \<Rightarrow>
          if c = 0x30 then Some ([c], r)
          else if is_digit c then Some (takeWhile is_digit s, dropWhile is_digit s)
          else None)"

definition scan_frac :: "jsstring \<Rightarrow> (jsstring \<times> jsstring) option" where
  "scan_frac s =
     (case s of
        [] \<Rightarrow> Some ([], s)
      | c # r \<Rightarrow>
          if c = 0x2E
          then (if takeWhile is_digit r = [] then None
                else Some (takeWhile is_digit r, dropWhile is_digit r))
          else Some ([], s))"

definition scan_exp_digits :: "bool \<Rightarrow> jsstring \<Rightarrow> (int \<times> jsstring) option" where
  "scan_exp_digits neg s =
     (if takeWhile is_digit s = [] then None
      else Some ((if neg then - int (digits_value (takeWhile is_digit s))
                  else int (digits_value (takeWhile is_digit s))),
                 dropWhile is_digit s))"

definition scan_exp :: "jsstring \<Rightarrow> (int \<times> jsstring) option" where
  "scan_exp s =
     (case s of
        [] \<Rightarrow> Some (0, s)
      | c # r \<Rightarrow>
          if c = 0x65 \<or> c = 0x45
          then (case r of
                  [] \<Rightarrow> None
                | d # r' \<Rightarrow>
                    if d = 0x2B then scan_exp_digits False r'
                    else if d = 0x2D then scan_exp_digits True r'
                    else scan_exp_digits False r)
          else Some (0, s))"

definition scan_number :: "jsstring \<Rightarrow> (rat \<times> jsstring) option" where
  "scan_number s =
     (case scan_int (snd (scan_sign s)) of
        None \<Rightarrow> None
      | Some (ip, s1) \<Rightarrow>
          (case scan_frac s1 of
             None \<Rightarrow> None
           | Some (fp, s2) \<Rightarrow>
               (case scan_exp s2 of
                  None \<Rightarrow> None
                | Some (e, s3) \<Rightarrow>
                    Some ((if fst (scan_sign s) then - 1 else 1)
                          * (of_nat (digits_value ip)
                             + of_nat (digits_value fp) / 10 ^ length fp)
                          * pow10 e, s3))))"

text \<open>The escapes of a string literal.\<close>

definition hex_digit :: "code_unit \<Rightarrow> code_unit option" where
  "hex_digit c =
     (if 0x30 \<le> c \<and> c \<le> 0x39 then Some (c - 0x30)
      else if 0x41 \<le> c \<and> c \<le> 0x46 then Some (c - 0x37)
      else if 0x61 \<le> c \<and> c \<le> 0x66 then Some (c - 0x57)
      else None)"

definition hex4 :: "code_unit \<Rightarrow> code_unit \<Rightarrow> code_unit \<Rightarrow> code_unit \<Rightarrow> code_unit option" where
  "hex4 a b c d =
     (case (hex_digit a, hex_digit b, hex_digit c, hex_digit d) of
        (Some h3, Some h2, Some h1, Some h0) \<Rightarrow> Some (h3 * 0x1000 + h2 * 0x100 + h1 * 0x10 + h0)
      | _ \<Rightarrow> None)"

definition escape :: "code_unit \<Rightarrow> code_unit option" where
  "escape e =
     (if e = 0x22 then Some 0x22
      else if e = 0x5C then Some 0x5C
      else if e = 0x2F then Some 0x2F
      else if e = 0x62 then Some 0x08
      else if e = 0x66 then Some 0x0C
      else if e = 0x6E then Some 0x0A
      else if e = 0x72 then Some 0x0D
      else if e = 0x74 then Some 0x09
      else None)"

text \<open>
  The text behind the opening quote of a string literal: the string it denotes and the
  rest behind the closing quote. A control character may not stand in a string.
\<close>

fun scan_string :: "jsstring \<Rightarrow> (jsstring \<times> jsstring) option" where
  "scan_string [] = None"
| "scan_string (c # cs) =
     (if c = 0x22 then Some ([], cs)
      else if c = 0x5C then
        (case cs of
           [] \<Rightarrow> None
         | e # cs' \<Rightarrow>
             if e = 0x75 then
               (case cs' of
                  h3 # h2 # h1 # h0 # cs'' \<Rightarrow>
                    (case hex4 h3 h2 h1 h0 of
                       None \<Rightarrow> None
                     | Some u \<Rightarrow> map_option (\<lambda>(str, rest). (u # str, rest)) (scan_string cs''))
                | _ \<Rightarrow> None)
             else
               (case escape e of
                  None \<Rightarrow> None
                | Some u \<Rightarrow> map_option (\<lambda>(str, rest). (u # str, rest)) (scan_string cs')))
      else if c < 0x20 then None
      else map_option (\<lambda>(str, rest). (c # str, rest)) (scan_string cs))"

lemma scan_string_rest: "scan_string s = Some (str, rest) \<Longrightarrow> length rest < length s"
proof (induction s arbitrary: str rest rule: scan_string.induct)
  case 1
  then show ?case by simp
next
  case (2 c cs)
  show ?case
  proof (cases "c = 0x22")
    case True
    with "2.prems" show ?thesis by simp
  next
    case nq: False
    show ?thesis
    proof (cases "c = 0x5C")
      case bs: True
      show ?thesis
      proof (cases cs)
        case Nil
        with "2.prems" nq bs show ?thesis by simp
      next
        case (Cons e cs')
        show ?thesis
        proof (cases "e = 0x75")
          case u: True
          from "2.prems" nq bs Cons u obtain h3 h2 h1 h0 cs'' uu str' where
            cs': "cs' = h3 # h2 # h1 # h0 # cs''" and h: "hex4 h3 h2 h1 h0 = Some uu"
            and r: "scan_string cs'' = Some (str', rest)"
            by (auto split: list.splits option.splits)
          from "2.IH"(1) nq bs Cons u cs' h r have "length rest < length cs''" by blast
          then show ?thesis
            using Cons cs' by simp
        next
          case nu: False
          from "2.prems" nq bs Cons nu obtain uu str' where
            h: "escape e = Some uu" and r: "scan_string cs' = Some (str', rest)"
            by (auto split: option.splits)
          from "2.IH"(2) nq bs Cons nu h r have "length rest < length cs'" by blast
          then show ?thesis
            using Cons by simp
        qed
      qed
    next
      case nbs: False
      from "2.prems" nq nbs obtain str' where
        c: "\<not> c < 0x20" and r: "scan_string cs = Some (str', rest)"
        by (auto split: if_splits)
      from "2.IH"(3) nq nbs c r have "length rest < length cs" by blast
      then show ?thesis by simp
    qed
  qed
qed

lemma scan_number_rest: "scan_number s = Some (v, rest) \<Longrightarrow> length rest < length s"
proof -
  have drop_le: "length (dropWhile is_digit t) \<le> length t" for t
    by (rule length_dropWhile_le)
  have sign: "length (snd (scan_sign t)) \<le> length t" for t
    by (simp add: scan_sign_def split: list.splits)
  have int: "scan_int t = Some (a, r) \<Longrightarrow> length r < length t" for t a r
    using drop_le [of "tl t"] by (auto simp: scan_int_def less_Suc_eq_le split: list.splits if_splits)
  have frac: "scan_frac t = Some (a, r) \<Longrightarrow> length r \<le> length t" for t a r
    using drop_le [of "tl t"] by (auto simp: scan_frac_def split: list.splits if_splits)
  have expd: "scan_exp_digits b t = Some (e, r) \<Longrightarrow> length r \<le> length t" for b t e r
    using drop_le [of t] by (auto simp: scan_exp_digits_def split: if_splits)
  have exp: "scan_exp t = Some (e, r) \<Longrightarrow> length r \<le> length t" for t e r
    by (auto simp: scan_exp_def split: list.splits if_splits dest!: expd)
  assume "scan_number s = Some (v, rest)"
  then obtain ip s1 fp s2 e where
    "scan_int (snd (scan_sign s)) = Some (ip, s1)" "scan_frac s1 = Some (fp, s2)"
    "scan_exp s2 = Some (e, rest)"
    by (auto simp: scan_number_def split: option.splits)
  then show ?thesis
    using int [of "snd (scan_sign s)" ip s1] frac [of s1 fp s2] exp [of s2 e rest] sign [of s]
    by linarith
qed

text \<open>
  The tokens of a JSON text, or \<open>None\<close> where the text has none (\<^verbatim>\<open>SyntaxError\<close>).
  White space between tokens is space, tab, line feed and carriage return.
\<close>

definition is_json_space :: "code_unit \<Rightarrow> bool" where
  "is_json_space c \<longleftrightarrow> c = 0x20 \<or> c = 0x09 \<or> c = 0x0A \<or> c = 0x0D"

function tokens :: "jsstring \<Rightarrow> token list option" where
  "tokens [] = Some []"
| "tokens (c # cs) =
     (if is_json_space c then tokens cs
      else if c = 0x7B then map_option (Cons TLBrace) (tokens cs)
      else if c = 0x7D then map_option (Cons TRBrace) (tokens cs)
      else if c = 0x5B then map_option (Cons TLBracket) (tokens cs)
      else if c = 0x5D then map_option (Cons TRBracket) (tokens cs)
      else if c = 0x3A then map_option (Cons TColon) (tokens cs)
      else if c = 0x2C then map_option (Cons TComma) (tokens cs)
      else if c = 0x22 then
        (case scan_string cs of
           None \<Rightarrow> None
         | Some (str, rest) \<Rightarrow> map_option (Cons (TLit (JStr str))) (tokens rest))
      else if c = 0x2D \<or> is_digit c then
        (case scan_number (c # cs) of
           None \<Rightarrow> None
         | Some (v, rest) \<Rightarrow> map_option (Cons (TLit (JNum v))) (tokens rest))
      else if prefix (U ''true'') (c # cs) then
        map_option (Cons (TLit (JBool True))) (tokens (drop 3 cs))
      else if prefix (U ''false'') (c # cs) then
        map_option (Cons (TLit (JBool False))) (tokens (drop 4 cs))
      else if prefix (U ''null'') (c # cs) then
        map_option (Cons (TLit JNull)) (tokens (drop 3 cs))
      else None)"
  by pat_completeness auto
termination
proof (relation "measure length", goal_cases)
  case 1
  show ?case by simp
next
  case (9 c cs x2 str rest)
  then show ?case using scan_string_rest [of cs str rest] by simp
next
  case (10 c cs x2 v rest)
  then show ?case using scan_number_rest [of "c # cs" v rest] by simp
qed simp_all

subsection \<open>The grammar\<close>

text \<open>
  The tokens are read from left to right with a stack of the arrays and objects that
  are open. \<open>InArr xs\<close>: an array with the elements \<open>xs\<close> so far; \<open>InObj ms\<close>: an
  object with the members \<open>ms\<close> so far; \<open>InMember ms k\<close>: the same, the value of key
  \<open>k\<close> being read. A key that comes again replaces the value of the member.
\<close>

datatype frame =
    InArr "json list"
  | InObj "(jsstring \<times> json) list"
  | InMember "(jsstring \<times> json) list" jsstring

datatype expect =
    Value
  | ValueOrEnd
  | KeyOrEnd
  | Key
  | Colon
  | Separator
  | Done json

text \<open>A value is complete: it goes into the frame on top, or it is the result.\<close>

fun complete :: "json \<Rightarrow> frame list \<Rightarrow> (expect \<times> frame list) option" where
  "complete v [] = Some (Done v, [])"
| "complete v (InArr xs # st) = Some (Separator, InArr (xs @ [v]) # st)"
| "complete v (InMember ms k # st) = Some (Separator, InObj (AList.update k v ms) # st)"
| "complete v (InObj ms # st) = None"

fun start_value :: "token \<Rightarrow> frame list \<Rightarrow> (expect \<times> frame list) option" where
  "start_value (TLit v) st = complete v st"
| "start_value TLBracket st = Some (ValueOrEnd, InArr [] # st)"
| "start_value TLBrace st = Some (KeyOrEnd, InObj [] # st)"
| "start_value _ st = None"

fun start_key :: "token \<Rightarrow> frame list \<Rightarrow> (expect \<times> frame list) option" where
  "start_key (TLit (JStr k)) (InObj ms # st) = Some (Colon, InMember ms k # st)"
| "start_key _ st = None"

fun step :: "expect \<Rightarrow> frame list \<Rightarrow> token \<Rightarrow> (expect \<times> frame list) option" where
  "step Value st t = start_value t st"
| "step ValueOrEnd (InArr xs # st) TRBracket = complete (JArr xs) st"
| "step ValueOrEnd st t = start_value t st"
| "step KeyOrEnd (InObj ms # st) TRBrace = complete (JObj ms) st"
| "step KeyOrEnd st t = start_key t st"
| "step Key st t = start_key t st"
| "step Colon st TColon = Some (Value, st)"
| "step Colon st t = None"
| "step Separator (InArr xs # st) TComma = Some (Value, InArr xs # st)"
| "step Separator (InArr xs # st) TRBracket = complete (JArr xs) st"
| "step Separator (InObj ms # st) TComma = Some (Key, InObj ms # st)"
| "step Separator (InObj ms # st) TRBrace = complete (JObj ms) st"
| "step Separator st t = None"
| "step (Done v) st t = None"

fun parse_tokens :: "expect \<Rightarrow> frame list \<Rightarrow> token list \<Rightarrow> json option" where
  "parse_tokens (Done v) [] [] = Some v"
| "parse_tokens e st [] = None"
| "parse_tokens e st (t # ts) =
     (case step e st t of
        None \<Rightarrow> None
      | Some (e', st') \<Rightarrow> parse_tokens e' st' ts)"

text \<open>\<^verbatim>\<open>JSON.parse(text)\<close>: the value, or \<open>None\<close> where it throws a \<^verbatim>\<open>SyntaxError\<close>.\<close>

definition JSON_parse :: "jsstring \<Rightarrow> json option" where
  "JSON_parse text =
     (case tokens text of
        None \<Rightarrow> None
      | Some ts \<Rightarrow> parse_tokens Value [] ts)"

section \<open>The handler\<close>

subsection \<open>What the handler receives and what it calls\<close>

text \<open>
  Of the request the handler reads the method and the header \<^verbatim>\<open>x-api-key\<close>
  (\<open>None\<close>: the header is absent). The headers that the handler sets on every answer
  and its log lines are left out.
\<close>

record request =
  req_method :: jsstring
  x_api_key :: "jsstring option"

text \<open>A thrown value, as far as the handler reads it: \<^verbatim>\<open>message\<close> and \<^verbatim>\<open>stack\<close>.\<close>

record js_error =
  message :: jsstring
  stack :: "jsstring option"

text \<open>
  The entry of \<^verbatim>\<open>files\<close> that the form parser makes for an uploaded file, with the
  two properties that the handler reads (\<^verbatim>\<open>originalFilename\<close> may be \<^verbatim>\<open>null\<close>).
\<close>

record uploaded_file =
  filepath :: jsstring
  originalFilename :: "jsstring option"

text \<open>
  The content of a chat message is a string or a list of parts; the request to the
  model is the argument of \<^verbatim>\<open>fetch\<close> (the body before \<^verbatim>\<open>JSON.stringify\<close>).
\<close>

datatype part =
    TextPart jsstring
  | ImageUrlPart jsstring jsstring

datatype message_content =
    Text jsstring
  | Parts "part list"

record chat_request =
  endpoint :: jsstring
  authorization :: jsstring
  model :: jsstring
  messages :: "(jsstring \<times> message_content) list"
  max_tokens :: nat
  temperature :: rat

text \<open>The answer of \<^verbatim>\<open>fetch\<close>, with the outcomes of \<^verbatim>\<open>text()\<close> and \<^verbatim>\<open>json()\<close>.\<close>

record fetch_response =
  ok :: bool
  status :: nat
  text_result :: "js_error + jsstring"
  json_result :: "js_error + json"

text \<open>
  Everything outside the handler that one run reads or calls: the environment
  variables, the outcome of \<^verbatim>\<open>form.parse\<close> (its error, or \<^verbatim>\<open>files.policy_file\<close>), the
  file system, the model API, the \<^verbatim>\<open>TypeError\<close> of the runtime, the stack that the
  runtime gives an \<^verbatim>\<open>Error\<close> made with a message, the clock and the random generator
  (\<open>random_string\<close> is \<^verbatim>\<open>Math.random().toString(36)\<close>).
\<close>

record world =
  env_API_KEY :: "jsstring option"
  env_OPENAI_API_KEY :: "jsstring option"
  env_NODE_ENV :: "jsstring option"
  form_parse :: "js_error + uploaded_file option"
  readFileSync :: "jsstring \<Rightarrow> js_error + byte list"
  fetch :: "chat_request \<Rightarrow> js_error + fetch_response"
  type_error :: js_error
  stack_of :: "jsstring \<Rightarrow> jsstring"
  date_now :: nat
  random_string :: jsstring
  iso_string :: jsstring

text \<open>The calls that a run makes, in their order.\<close>

datatype event =
    ParseForm
  | ReadFile jsstring
  | Fetch chat_request

fun is_fetch :: "event \<Rightarrow> bool" where
  "is_fetch (Fetch r) = True"
| "is_fetch _ = False"

text \<open>The answer to the caller: \<^verbatim>\<open>res.status(n).json(b)\<close>, or \<^verbatim>\<open>res.status(n).end()\<close>.\<close>

record response =
  status_code :: nat
  body :: "json option"

definition json_response :: "nat \<Rightarrow> json \<Rightarrow> response" where
  "json_response n b = \<lparr>status_code = n, body = Some b\<rparr>"

definition new_error :: "world \<Rightarrow> jsstring \<Rightarrow> js_error" where
  "new_error w m = \<lparr>message = m, stack = Some (stack_of w m)\<rparr>"

subsection \<open>Credential, file name and prompts\<close>

definition serverApiKey :: "world \<Rightarrow> jsstring" where
  \<open>serverApiKey w =
     (case env_API_KEY w of
        None \<Rightarrow> U ''suRew@y_Insur@nce_2024_S3cur3_K3y''
      | Some k \<Rightarrow> if k = [] then U ''suRew@y_Insur@nce_2024_S3cur3_K3y'' else k)\<close>

text \<open>\<^verbatim>\<open>fileName.split('.').pop().toLowerCase()\<close>\<close>

definition fileExtension :: "jsstring \<Rightarrow> jsstring" where
  "fileExtension fileName = toLowerCase (last (split 0x2E fileName))"

definition systemPrompt :: jsstring where
  \<open>systemPrompt = U ''You are an expert insurance analyst specializing in Workers' Compensation policies. Analyze insurance policies and provide actionable insights to help businesses save money and optimize coverage.''\<close>

definition userPrompt :: "jsstring \<Rightarrow> jsstring" where
  \<open>userPrompt fileName =
     U ''I have uploaded a Workers' Compensation insurance policy document named "''
     @ fileName
     @ U (concat
        [''". Please analyze this policy and provide:\<newline>'',
         ''\<newline>'',
         ''1. **Executive Summary**:\<newline>'',
         ''   - Current annual premium (if visible in the document)\<newline>'',
         ''   - Overall policy assessment\<newline>'',
         ''   - Estimated savings potential (as a percentage range, e.g., "15-25%")\<newline>'',
         ''   - Confidence score (0-100) for your analysis\<newline>'',
         ''\<newline>'',
         ''2. **Savings Opportunities**:\<newline>'',
         ''   - List 3-5 specific immediate actions that could reduce premiums\<newline>'',
         ''   - Estimated savings range\<newline>'',
         ''\<newline>'',
         ''3. **Coverage Analysis**:\<newline>'',
         ''   - Key coverage details found in the policy\<newline>'',
         ''   - Any gaps or redundancies identified\<newline>'',
         ''   - Compliance with NY state requirements\<newline>'',
         ''\<newline>'',
         ''4. **Risk Assessment**:\<newline>'',
         ''   - Industry classification accuracy\<newline>'',
         ''   - Experience modification factors (if mentioned)\<newline>'',
         ''   - Safety program recommendations\<newline>'',
         ''\<newline>'',
         ''5. **Recommendations**:\<newline>'',
         ''   - Priority actions to take immediately\<newline>'',
         ''   - Timeline for implementation\<newline>'',
         ''\<newline>'',
         ''Please respond with a JSON object in this exact format:\<newline>'',
         ''{\<newline>'',
         ''  "executive_summary": {\<newline>'',
         ''    "current_premium": "string or null",\<newline>'',
         ''    "overall_assessment": "string",\<newline>'',
         ''    "savings_potential": "string (e.g., '15-25%')",\<newline>'',
         ''    "confidence_score": number\<newline>'',
         ''  },\<newline>'',
         ''  "savings_opportunities": {\<newline>'',
         ''    "immediate_actions": ["action1", "action2", "action3"],\<newline>'',
         ''    "estimated_savings_range": "string"\<newline>'',
         ''  },\<newline>'',
         ''  "coverage_analysis": {\<newline>'',
         ''    "key_details": ["detail1", "detail2"],\<newline>'',
         ''    "gaps": ["gap1", "gap2"],\<newline>'',
         ''    "compliance_status": "string"\<newline>'',
         ''  },\<newline>'',
         ''  "risk_assessment": {\<newline>'',
         ''    "classification_accuracy": "string",\<newline>'',
         ''    "recommendations": ["rec1", "rec2"]\<newline>'',
         ''  },\<newline>'',
         ''  "priority_recommendations": ["rec1", "rec2", "rec3"]\<newline>'',
         ''}''])\<close>

subsection \<open>The request to the model\<close>

text \<open>\<^verbatim>\<open>fileContent.toString('base64')\<close>: base64 with the standard alphabet and padding.\<close>

definition base64_digit :: "nat \<Rightarrow> code_unit" where
  "base64_digit n =
     U ''ABCDEFGHIJKLMNOPQRSTUVWXYZabcdefghijklmnopqrstuvwxyz0123456789+/'' ! (n mod 64)"

fun base64 :: "byte list \<Rightarrow> jsstring" where
  "base64 [] = []"
| "base64 [a] =
     [base64_digit (unat a div 4), base64_digit (unat a mod 4 * 16), 0x3D, 0x3D]"
| "base64 [a, b] =
     [base64_digit (unat a div 4),
      base64_digit (unat a mod 4 * 16 + unat b div 16),
      base64_digit (unat b mod 16 * 4), 0x3D]"
| "base64 (a # b # c # rest) =
     [base64_digit (unat a div 4),
      base64_digit (unat a mod 4 * 16 + unat b div 16),
      base64_digit (unat b mod 16 * 4 + unat c div 64),
      base64_digit (unat c mod 64)] @ base64 rest"

definition image_extensions :: "jsstring list" where
  "image_extensions = [U ''jpg'', U ''jpeg'', U ''png'']"

definition imageType :: "jsstring \<Rightarrow> jsstring" where
  "imageType ext =
     (if ext = U ''png'' then U ''image/png'' else U ''image/jpeg'')"

definition pdf_note :: jsstring where
  \<open>pdf_note =
     U ''\<newline>\<newline>Note: This is a PDF document. Please analyze based on typical Workers' Compensation policy structures.''\<close>

text \<open>The array built in the first branch (lines 132 to 159 of the source).\<close>

definition contentArray :: "jsstring \<Rightarrow> jsstring \<Rightarrow> byte list \<Rightarrow> part list" where
  "contentArray ext fileName fileContent =
     (if ext \<in> set image_extensions
      then [TextPart (userPrompt fileName),
            ImageUrlPart
              (U ''data:'' @ imageType ext @ U '';base64,'' @ base64 fileContent)
              (U ''high'')]
      else [TextPart (userPrompt fileName @ pdf_note)])"

text \<open>
  The content of the user message in the two branches of line 128: the array for a PDF
  or an image, the prompt itself for every other file.
\<close>

definition userContent :: "jsstring \<Rightarrow> jsstring \<Rightarrow> byte list \<Rightarrow> message_content" where
  "userContent ext fileName fileContent =
     (if ext = U ''pdf'' \<or> ext \<in> set image_extensions
      then Parts (contentArray ext fileName fileContent)
      else Text (userPrompt fileName))"

definition chat :: "jsstring \<Rightarrow> message_content \<Rightarrow> chat_request" where
  "chat openaiApiKey content =
     \<lparr>endpoint = U ''https://api.openai.com/v1/chat/completions'',
      authorization = U ''Bearer '' @ openaiApiKey,
      model = U ''gpt-4o'',
      messages = [(U ''system'', Text systemPrompt), (U ''user'', content)],
      max_tokens = 2000,
      temperature = 7 / 10\<rparr>"

subsection \<open>The reply of the model\<close>

text \<open>
  Reading a property of a value that may be \<^verbatim>\<open>undefined\<close> (\<open>None\<close>): on \<^verbatim>\<open>undefined\<close>
  and \<^verbatim>\<open>null\<close> the runtime throws a \<^verbatim>\<open>TypeError\<close>. \<open>get_first\<close> is the index \<^verbatim>\<open>[0]\<close>.
\<close>

fun get_prop :: "world \<Rightarrow> jsstring \<Rightarrow> json option \<Rightarrow> js_error + json option" where
  "get_prop w k None = Inl (type_error w)"
| "get_prop w k (Some JNull) = Inl (type_error w)"
| "get_prop w k (Some (JObj ms)) = Inr (map_of ms k)"
| "get_prop w k (Some v) = Inr None"

fun get_first :: "world \<Rightarrow> json option \<Rightarrow> js_error + json option" where
  "get_first w None = Inl (type_error w)"
| "get_first w (Some JNull) = Inl (type_error w)"
| "get_first w (Some (JObj ms)) = Inr (map_of ms (U ''0''))"
| "get_first w (Some (JArr [])) = Inr None"
| "get_first w (Some (JArr (x # xs))) = Inr (Some x)"
| "get_first w (Some (JStr [])) = Inr None"
| "get_first w (Some (JStr (c # cs))) = Inr (Some (JStr [c]))"
| "get_first w (Some v) = Inr None"

text \<open>
  \<^verbatim>\<open>aiResponse.choices[0].message.content\<close>, and the call of \<^verbatim>\<open>substring\<close> on it, which
  only a string has.
\<close>

definition reply_content :: "world \<Rightarrow> json \<Rightarrow> js_error + jsstring" where
  "reply_content w aiResponse =
     (case get_prop w (U ''choices'') (Some aiResponse) of
        Inl e \<Rightarrow> Inl e
      | Inr choices \<Rightarrow>
          (case get_first w choices of
             Inl e \<Rightarrow> Inl e
           | Inr choice \<Rightarrow>
               (case get_prop w (U ''message'') choice of
                  Inl e \<Rightarrow> Inl e
                | Inr msg \<Rightarrow>
                    (case get_prop w (U ''content'') msg of
                       Inl e \<Rightarrow> Inl e
                     | Inr (Some (JStr analysisResult)) \<Rightarrow> Inr analysisResult
                     | Inr _ \<Rightarrow> Inl (type_error w)))))"

text \<open>
  The call of the model API. The source has it twice, in the two branches, with nothing
  but the content of the user message different (lines 162 to 192 and 196 to 226).
\<close>

definition completion :: "world \<Rightarrow> chat_request \<Rightarrow> js_error + jsstring" where
  "completion w request =
     (case fetch w request of
        Inl e \<Rightarrow> Inl e
      | Inr response \<Rightarrow>
          if \<not> ok response then
            (case text_result response of
               Inl e \<Rightarrow> Inl e
             | Inr errorText \<Rightarrow>
                 Inl (new_error w (U ''OpenAI API error: '' @ decimal (status response))))
          else
            (case json_result response of
               Inl e \<Rightarrow> Inl e
             | Inr aiResponse \<Rightarrow> reply_content w aiResponse))"

subsection \<open>The result from the reply\<close>

definition fence_json :: "atom list" where
  \<open>fence_json = map Lit (U ''```json'') @ [Opt 0x0A]\<close>

definition fence :: "atom list" where
  \<open>fence = map Lit (U ''```'') @ [Opt 0x0A]\<close>

definition braces :: "atom list" where
  "braces = [Lit 0x7B, AnyStar, Lit 0x7D]"

definition cleanedResult :: "jsstring \<Rightarrow> jsstring" where
  "cleanedResult analysisResult =
     trim (replace_all_empty fence (replace_all_empty fence_json analysisResult))"

definition jsonMatch :: "jsstring \<Rightarrow> jsstring option" where
  "jsonMatch cleaned = str_match braces cleaned"

text \<open>The \<^verbatim>\<open>try\<close> block of lines 233 to 243: \<open>None\<close> where it throws.\<close>

definition try_parse :: "jsstring \<Rightarrow> json option" where
  "try_parse analysisResult =
     (case jsonMatch (cleanedResult analysisResult) of
        None \<Rightarrow> None
      | Some candidate \<Rightarrow> JSON_parse candidate)"

text \<open>The object of the \<^verbatim>\<open>catch\<close> block.\<close>

definition fallback :: "jsstring \<Rightarrow> json" where
  "fallback analysisResult =
     JObj
      [(U ''executive_summary'',
        JObj
         [(U ''current_premium'', JStr (U ''Analysis completed'')),
          (U ''overall_assessment'', JStr (substring0 300 analysisResult)),
          (U ''savings_potential'', JStr (U ''15-25%'')),
          (U ''confidence_score'', JNum 85)]),
       (U ''savings_opportunities'',
        JObj
         [(U ''immediate_actions'',
           JArr
            [JStr (U ''Review classification codes for accuracy''),
             JStr (U ''Verify payroll calculations''),
             JStr (U ''Check experience modification factor'')]),
          (U ''estimated_savings_range'', JStr (U ''15-25%''))]),
       (U ''full_analysis_text'', JStr analysisResult)]"

definition analysisData :: "jsstring \<Rightarrow> json" where
  "analysisData analysisResult =
     (case try_parse analysisResult of
        Some parsed \<Rightarrow> parsed
      | None \<Rightarrow> fallback analysisResult)"

subsection \<open>The answers\<close>

definition failure :: "jsstring \<Rightarrow> json" where
  "failure m = JObj [(U ''success'', JBool False), (U ''error'', JStr m)]"

definition analysisId :: "world \<Rightarrow> jsstring" where
  "analysisId w = U ''wc_'' @ decimal (date_now w) @ U ''_'' @ substr 2 9 (random_string w)"

definition success_body :: "world \<Rightarrow> jsstring \<Rightarrow> jsstring \<Rightarrow> json \<Rightarrow> json" where
  "success_body w fileName ext data =
     JObj
      [(U ''success'', JBool True),
       (U ''analysis_id'', JStr (analysisId w)),
       (U ''data'', data),
       (U ''metadata'',
        JObj
         [(U ''file_name'', JStr fileName),
          (U ''file_type'', JStr ext),
          (U ''processed_at'', JStr (iso_string w)),
          (U ''model_used'', JStr (U ''gpt-4o''))])]"

text \<open>
  The answer of the \<^verbatim>\<open>catch\<close> at the end: an empty message gives way to the fixed
  one, and \<^verbatim>\<open>details\<close> is there in development only.
\<close>

definition error_body :: "world \<Rightarrow> js_error \<Rightarrow> json" where
  "error_body w error =
     JObj
      ([(U ''success'', JBool False),
        (U ''error'',
         JStr (if message error = [] then U ''Failed to analyze policy'' else message error))]
       @ (case stack error of
            None \<Rightarrow> []
          | Some s \<Rightarrow>
              if env_NODE_ENV w = Some (U ''development'') then [(U ''details'', JStr s)]
              else []))"

subsection \<open>The run\<close>

text \<open>
  From the check of the model key on (lines 65 to 281), for the file content and its
  name: the calls made and the answer, or the error thrown.
\<close>

definition analyze :: "world \<Rightarrow> byte list \<Rightarrow> jsstring \<Rightarrow> event list \<times> (js_error + response)" where
  "analyze w fileContent fileName =
     (case env_OPENAI_API_KEY w of
        None \<Rightarrow> ([], Inl (new_error w (U ''OPENAI_API_KEY not configured'')))
      | Some openaiApiKey \<Rightarrow>
          if openaiApiKey = [] then ([], Inl (new_error w (U ''OPENAI_API_KEY not configured'')))
          else
            (let request =
                   chat openaiApiKey (userContent (fileExtension fileName) fileName fileContent)
             in case completion w request of
                  Inl e \<Rightarrow> ([Fetch request], Inl e)
                | Inr analysisResult \<Rightarrow>
                    ([Fetch request],
                     Inr (json_response 200
                            (success_body w fileName (fileExtension fileName)
                               (analysisData analysisResult))))))"

text \<open>The \<^verbatim>\<open>try\<close> block of the handler (lines 39 to 281).\<close>

definition try_block :: "world \<Rightarrow> event list \<times> (js_error + response)" where
  "try_block w =
     (case form_parse w of
        Inl err \<Rightarrow> ([ParseForm], Inl err)
      | Inr None \<Rightarrow> ([ParseForm], Inr (json_response 400 (failure (U ''No file uploaded''))))
      | Inr (Some policyFile) \<Rightarrow>
          (case readFileSync w (filepath policyFile) of
             Inl e \<Rightarrow> ([ParseForm, ReadFile (filepath policyFile)], Inl e)
           | Inr fileContent \<Rightarrow>
               (case originalFilename policyFile of
                  None \<Rightarrow> ([ParseForm, ReadFile (filepath policyFile)], Inl (type_error w))
                | Some fileName \<Rightarrow>
                    (case analyze w fileContent fileName of
                       (evs, r) \<Rightarrow> ([ParseForm, ReadFile (filepath policyFile)] @ evs, r)))))"

definition handler :: "world \<Rightarrow> request \<Rightarrow> event list \<times> response" where
  "handler w req =
     (if req_method req = U ''OPTIONS'' then ([], \<lparr>status_code = 200, body = None\<rparr>)
      else if req_method req \<noteq> U ''POST''
      then ([], json_response 405 (failure (U ''Method not allowed'')))
      else if x_api_key req \<noteq> Some (serverApiKey w)
      then ([], json_response 401 (failure (U ''Invalid API key'')))
      else (case try_block w of
              (evs, Inr answer) \<Rightarrow> (evs, answer)
            | (evs, Inl error) \<Rightarrow> (evs, json_response 500 (error_body w error))))"

section \<open>Properties\<close>

text \<open>A property of a property: \<^verbatim>\<open>v.k1.k2\<close>, \<open>None\<close> where \<^verbatim>\<open>v.k1\<close> is no object.\<close>

definition field2 :: "jsstring \<Rightarrow> jsstring \<Rightarrow> json \<Rightarrow> json option" where
  "field2 k1 k2 v = (case field k1 v of None \<Rightarrow> None | Some inner \<Rightarrow> field k2 inner)"

text \<open>
  A world for the examples: no environment variable but the model key, the upload as
  given, a file of three bytes, and a model that answers every request with \<open>reply\<close>.
\<close>

definition demo_world :: "uploaded_file option \<Rightarrow> jsstring \<Rightarrow> world" where
  \<open>demo_world upload reply =
     \<lparr>env_API_KEY = None,
      env_OPENAI_API_KEY = Some (U ''sk-demo''),
      env_NODE_ENV = None,
      form_parse = Inr upload,
      readFileSync = (\<lambda>path. Inr [0x4D, 0x61, 0x6E]),
      fetch = (\<lambda>request.
         Inr \<lparr>ok = True, status = 200, text_result = Inr [],
              json_result =
                Inr (JObj [(U ''choices'',
                       JArr [JObj [(U ''message'', JObj [(U ''content'', JStr reply)])]])])\<rparr>),
      type_error = \<lparr>message = U ''Cannot read properties of undefined'', stack = None\<rparr>,
      stack_of = (\<lambda>m. U ''Error''),
      date_now = 1700000000000,
      random_string = U ''0.4fzyo82mvyr'',
      iso_string = U ''2023-11-14T22:13:20.000Z''\<rparr>\<close>

text \<open>An upload and a request with the default credential, for the examples.\<close>

definition demo_upload :: uploaded_file where
  \<open>demo_upload = \<lparr>filepath = U ''/tmp/upload_1'', originalFilename = Some (U ''policy.pdf'')\<rparr>\<close>

definition demo_request :: request where
  \<open>demo_request =
     \<lparr>req_method = U ''POST'', x_api_key = Some (U ''suRew@y_Insur@nce_2024_S3cur3_K3y'')\<rparr>\<close>

text \<open>The \<^verbatim>\<open>data\<close> of an answer, \<open>None\<close> where the answer has no body or no such member.\<close>

definition answer_data :: "response \<Rightarrow> json option" where
  "answer_data answer = (case body answer of None \<Rightarrow> None | Some b \<Rightarrow> field (U ''data'') b)"

text \<open>
  The span of claim C6 in the words of the claim: the substring from the first opening
  brace to the last closing brace of a text. \<open>first_index c s\<close> is the index of the
  first \<open>c\<close> in \<open>s\<close>, \<open>last_index c s\<close> the index of the last one.
\<close>

definition first_index :: "code_unit \<Rightarrow> jsstring \<Rightarrow> nat" where
  "first_index c s = length (takeWhile (\<lambda>x. x \<noteq> c) s)"

definition last_index :: "code_unit \<Rightarrow> jsstring \<Rightarrow> nat" where
  "last_index c s = length s - Suc (length (takeWhile (\<lambda>x. x \<noteq> c) (rev s)))"

definition widest_span :: "jsstring \<Rightarrow> jsstring" where
  "widest_span s =
     take (Suc (last_index 0x7D s) - first_index 0x7B s) (drop (first_index 0x7B s) s)"

subsection \<open>The checks before the analysis\<close>

text \<open>
  Claim C9. For every POST request whose credential header does not equal the
  configured secret (an absent header among them), the handler answers 401 with the
  body \<^verbatim>\<open>{success: false, error: "Invalid API key"}\<close>, and it has made no call before:
  the form is not parsed, no file is read, the model is not called.
\<close>

theorem invalid_key_401:
  assumes "req_method req = U ''POST''" and "x_api_key req \<noteq> Some (serverApiKey w)"
  shows "handler w req =
           ([], \<lparr>status_code = 401,
                 body = Some (JObj [(U ''success'', JBool False),
                                    (U ''error'', JStr (U ''Invalid API key''))])\<rparr>)"
proof -
  have "U ''POST'' \<noteq> U ''OPTIONS''"
    by (simp add: U_def)
  with assms show ?thesis
    by (simp add: handler_def json_response_def failure_def)
qed

theorem invalid_key_401_witness:
  \<open>handler (demo_world None []) \<lparr>req_method = U ''POST'', x_api_key = Some (U ''guess'')\<rparr> =
     ([], \<lparr>status_code = 401,
           body = Some (JObj [(U ''success'', JBool False),
                              (U ''error'', JStr (U ''Invalid API key''))])\<rparr>)\<close>
proof -
  have 1: \<open>req_method \<lparr>req_method = U ''POST'', x_api_key = Some (U ''guess'')\<rparr> = U ''POST''\<close>
    by simp
  have 2: \<open>x_api_key \<lparr>req_method = U ''POST'', x_api_key = Some (U ''guess'')\<rparr>
             \<noteq> Some (serverApiKey (demo_world None []))\<close>
    by (simp add: serverApiKey_def demo_world_def U_def)
  show ?thesis
    by (rule invalid_key_401 [OF 1 2])
qed

text \<open>
  Claim C8. For every POST request with the valid credential whose parsed form has no
  file under \<^verbatim>\<open>policy_file\<close>, the handler answers 400 with \<^verbatim>\<open>success: false\<close>; the
  only call of the run is the parsing of the form, so the model is never called.
\<close>

theorem missing_file_400:
  assumes "req_method req = U ''POST''" and "x_api_key req = Some (serverApiKey w)"
    and "form_parse w = Inr None"
  shows "handler w req =
           ([ParseForm],
            \<lparr>status_code = 400,
             body = Some (JObj [(U ''success'', JBool False),
                                (U ''error'', JStr (U ''No file uploaded''))])\<rparr>)
         \<and> filter is_fetch (fst (handler w req)) = []"
proof -
  have "U ''POST'' \<noteq> U ''OPTIONS''"
    by (simp add: U_def)
  with assms show ?thesis
    by (simp add: handler_def try_block_def json_response_def failure_def)
qed

theorem missing_file_400_witness:
  \<open>handler (demo_world None [])
       \<lparr>req_method = U ''POST'', x_api_key = Some (U ''suRew@y_Insur@nce_2024_S3cur3_K3y'')\<rparr> =
     ([ParseForm],
      \<lparr>status_code = 400,
       body = Some (JObj [(U ''success'', JBool False),
                          (U ''error'', JStr (U ''No file uploaded''))])\<rparr>)
   \<and> filter is_fetch
        (fst (handler (demo_world None [])
           \<lparr>req_method = U ''POST'', x_api_key = Some (U ''suRew@y_Insur@nce_2024_S3cur3_K3y'')\<rparr>)) = []\<close>
proof -
  let ?req = \<open>\<lparr>req_method = U ''POST'', x_api_key = Some (U ''suRew@y_Insur@nce_2024_S3cur3_K3y'')\<rparr>\<close>
  have 1: \<open>req_method ?req = U ''POST''\<close>
    by simp
  have 2: \<open>x_api_key ?req = Some (serverApiKey (demo_world None []))\<close>
    by (simp add: serverApiKey_def demo_world_def)
  have 3: "form_parse (demo_world None []) = Inr None"
    by (simp add: demo_world_def)
  show ?thesis
    by (rule missing_file_400 [OF 1 2 3])
qed

subsection \<open>The content sent to the model\<close>

text \<open>
  What a run sends when the model key is set: the user message has the content that
  \<open>userContent\<close> gives for the extension of the file name.
\<close>

lemma analyze_request:
  assumes "env_OPENAI_API_KEY w = Some openaiApiKey" and "openaiApiKey \<noteq> []"
  shows "fst (analyze w fileContent fileName) =
           [Fetch (chat openaiApiKey
                     (userContent (fileExtension fileName) fileName fileContent))]"
  using assms by (simp add: analyze_def Let_def split: sum.splits)

text \<open>
  Claim C5. For every file with the extension \<^verbatim>\<open>png\<close>, \<^verbatim>\<open>jpg\<close> or \<^verbatim>\<open>jpeg\<close>, whatever
  its name and its bytes, the content of the user message has two parts, the prompt
  and an image whose URL is a data URI of the base64 of the bytes; its MIME type is
  \<^verbatim>\<open>image/png\<close> for \<^verbatim>\<open>png\<close> and \<^verbatim>\<open>image/jpeg\<close> for \<^verbatim>\<open>jpg\<close> and \<^verbatim>\<open>jpeg\<close>.
\<close>

theorem image_content:
  \<open>userContent (U ''png'') fileName fileContent =
     Parts [TextPart (userPrompt fileName),
            ImageUrlPart (U ''data:image/png;base64,'' @ base64 fileContent) (U ''high'')]
   \<and> userContent (U ''jpg'') fileName fileContent =
     Parts [TextPart (userPrompt fileName),
            ImageUrlPart (U ''data:image/jpeg;base64,'' @ base64 fileContent) (U ''high'')]
   \<and> userContent (U ''jpeg'') fileName fileContent =
     Parts [TextPart (userPrompt fileName),
            ImageUrlPart (U ''data:image/jpeg;base64,'' @ base64 fileContent) (U ''high'')]\<close>
  by (simp add: userContent_def contentArray_def image_extensions_def imageType_def U_def)

lemma extension_of_policy_txt: \<open>fileExtension (U ''policy.txt'') = U ''txt''\<close>
  by (simp add: fileExtension_def split_def toLowerCase_def lower_unit_def U_def)

text \<open>
  Claim C1, as the code has it. A PDF gets an array of one text part, the prompt
  followed by the note ``This is a PDF document. Please analyze based on typical
  Workers' Compensation policy structures.''; every extension other than \<^verbatim>\<open>pdf\<close>,
  \<^verbatim>\<open>jpg\<close>, \<^verbatim>\<open>jpeg\<close> and \<^verbatim>\<open>png\<close> gets the prompt itself as a string, with no note.
\<close>

theorem other_content:
  assumes \<open>ext \<notin> {U ''pdf'', U ''jpg'', U ''jpeg'', U ''png''}\<close>
  shows \<open>userContent (U ''pdf'') pdfName pdfContent =
           Parts [TextPart (userPrompt pdfName @ pdf_note)]
         \<and> userContent ext fileName fileContent = Text (userPrompt fileName)\<close>
proof -
  have \<open>U ''pdf'' \<notin> set image_extensions\<close>
    by (simp add: image_extensions_def U_def)
  moreover from assms have "ext \<noteq> U ''pdf''" "ext \<notin> set image_extensions"
    by (simp_all add: image_extensions_def)
  ultimately show ?thesis
    by (simp add: userContent_def contentArray_def)
qed

theorem other_content_witness:
  \<open>fileExtension (U ''policy.txt'') \<notin> {U ''pdf'', U ''jpg'', U ''jpeg'', U ''png''}
   \<and> userContent (U ''pdf'') (U ''policy.pdf'') [0x25] =
       Parts [TextPart (userPrompt (U ''policy.pdf'') @ pdf_note)]
   \<and> userContent (fileExtension (U ''policy.txt'')) (U ''policy.txt'') [0x68, 0x69] =
       Text (userPrompt (U ''policy.txt''))\<close>
proof -
  have h: \<open>fileExtension (U ''policy.txt'') \<notin> {U ''pdf'', U ''jpg'', U ''jpeg'', U ''png''}\<close>
    unfolding extension_of_policy_txt by (simp add: U_def)
  from other_content [OF h] h show ?thesis
    by simp
qed

text \<open>
  The prompt has no letter \<open>D\<close>, the note has one: for a file name without \<open>D\<close> the
  note is not in the prompt.
\<close>

lemma prompt_without_D:
  assumes "0x44 \<notin> set fileName"
  shows "0x44 \<notin> set (userPrompt fileName)"
  using assms by (simp add: userPrompt_def U_def)

lemma note_has_D: "0x44 \<in> set pdf_note"
  by (simp add: pdf_note_def U_def)

lemma no_note_in_prompt:
  assumes "0x44 \<notin> set fileName"
  shows "\<not> sublist pdf_note (userPrompt fileName)"
proof
  assume "sublist pdf_note (userPrompt fileName)"
  then have "set pdf_note \<subseteq> set (userPrompt fileName)"
    by (rule set_mono_sublist)
  with note_has_D prompt_without_D [OF assms] show False
    by blast
qed

text \<open>
  Claim C1 as stated fails for \<^verbatim>\<open>policy.txt\<close>: the extension is \<^verbatim>\<open>txt\<close>, the content
  is the prompt, and the note is nowhere in it.
\<close>

theorem text_file_no_note:
  \<open>fileExtension (U ''policy.txt'') = U ''txt''
   \<and> userContent (fileExtension (U ''policy.txt'')) (U ''policy.txt'') [] =
       Text (userPrompt (U ''policy.txt''))
   \<and> \<not> sublist pdf_note (userPrompt (U ''policy.txt''))\<close>
proof -
  have \<open>userContent (U ''txt'') (U ''policy.txt'') [] = Text (userPrompt (U ''policy.txt''))\<close>
    by (simp add: userContent_def image_extensions_def U_def)
  moreover have \<open>\<not> sublist pdf_note (userPrompt (U ''policy.txt''))\<close>
    by (rule no_note_in_prompt) (simp add: U_def)
  ultimately show ?thesis
    using extension_of_policy_txt by simp
qed

subsection \<open>The extension of a file name\<close>

text \<open>
  \<open>split\<close> never returns the empty list, so that \<^verbatim>\<open>pop()\<close> always has a segment; for a
  name without a dot the only segment is the name itself.
\<close>

lemma split_from_not_empty: "split_from sep cur s \<noteq> []"
  by (induction s arbitrary: cur) simp_all

lemma split_from_no_separator: "sep \<notin> set s \<Longrightarrow> split_from sep cur s = [cur @ s]"
  by (induction s arbitrary: cur) auto

lemma dotless_extension:
  "0x2E \<notin> set fileName \<Longrightarrow> fileExtension fileName = toLowerCase fileName"
  by (simp add: fileExtension_def split_def split_from_no_separator)

text \<open>
  Claim C4, at the names \<^verbatim>\<open>policy\<close> and \<^verbatim>\<open>PNG\<close>, which have no dot: the extension is
  not empty, it is the whole name in lower case, and the name \<^verbatim>\<open>PNG\<close> goes the way of
  an image.
\<close>

theorem dotless_name_extension:
  \<open>fileExtension (U ''policy'') = U ''policy''
   \<and> fileExtension (U ''PNG'') = U ''png''
   \<and> userContent (fileExtension (U ''PNG'')) (U ''PNG'') [] =
       Parts [TextPart (userPrompt (U ''PNG'')),
              ImageUrlPart (U ''data:image/png;base64,'') (U ''high'')]\<close>
  by (simp add: fileExtension_def split_def toLowerCase_def lower_unit_def userContent_def contentArray_def image_extensions_def imageType_def U_def)

subsection \<open>The result from the reply\<close>

lemmas scan_defs = is_json_space_def is_digit_def scan_number_def scan_int_def scan_sign_def
  scan_frac_def scan_exp_def scan_exp_digits_def digits_value_def pow10_def hex4_def hex_digit_def escape_def

lemmas result_defs = analysisData_def try_parse_def jsonMatch_def cleanedResult_def
  str_match_def trim_def is_white_space_def fence_def fence_json_def braces_def JSON_parse_def

text \<open>
  Claim C7. For the reply \<^verbatim>\<open>```json\n{"executive_summary":{"confidence_score":90}}\n```\<close>
  the fences are removed, the text that is left parses, and
  \<^verbatim>\<open>executive_summary.confidence_score\<close> of the result is 90.
\<close>

theorem fenced_reply_parses:
  \<open>cleanedResult (U ''```json\<newline>{"executive_summary":{"confidence_score":90}}\<newline>```'') =
     U ''{"executive_summary":{"confidence_score":90}}''
   \<and> try_parse (U ''```json\<newline>{"executive_summary":{"confidence_score":90}}\<newline>```'') =
     Some (JObj [(U ''executive_summary'', JObj [(U ''confidence_score'', JNum 90)])])
   \<and> field2 (U ''executive_summary'') (U ''confidence_score'')
       (analysisData (U ''```json\<newline>{"executive_summary":{"confidence_score":90}}\<newline>```'')) =
     Some (JNum 90)\<close>
  by (simp add: result_defs scan_defs field2_def U_def)

text \<open>
  Claim C10. Whenever the \<^verbatim>\<open>try\<close> block throws, the result has the confidence score
  85, the savings potential and the estimated savings range ``15-25%'', the current
  premium ``Analysis completed'' and the three fixed actions.
\<close>

theorem fallback_defaults:
  assumes "try_parse analysisResult = None"
  shows \<open>field2 (U ''executive_summary'') (U ''confidence_score'') (analysisData analysisResult) =
           Some (JNum 85)
         \<and> field2 (U ''executive_summary'') (U ''savings_potential'') (analysisData analysisResult) =
           Some (JStr (U ''15-25%''))
         \<and> field2 (U ''savings_opportunities'') (U ''estimated_savings_range'')
             (analysisData analysisResult) =
           Some (JStr (U ''15-25%''))
         \<and> field2 (U ''executive_summary'') (U ''current_premium'') (analysisData analysisResult) =
           Some (JStr (U ''Analysis completed''))
         \<and> field2 (U ''savings_opportunities'') (U ''immediate_actions'')
             (analysisData analysisResult) =
           Some (JArr [JStr (U ''Review classification codes for accuracy''),
                       JStr (U ''Verify payroll calculations''),
                       JStr (U ''Check experience modification factor'')])\<close>
  using assms by (simp add: analysisData_def fallback_def field2_def U_def)

lemma prose_falls_back: \<open>try_parse (U ''Sorry, I cannot process this.'') = None\<close>
  by (simp add: result_defs U_def)

theorem fallback_defaults_witness:
  \<open>try_parse (U ''Sorry, I cannot process this.'') = None
   \<and> field2 (U ''executive_summary'') (U ''confidence_score'')
       (analysisData (U ''Sorry, I cannot process this.'')) = Some (JNum 85)
   \<and> field2 (U ''executive_summary'') (U ''savings_potential'')
       (analysisData (U ''Sorry, I cannot process this.'')) = Some (JStr (U ''15-25%''))
   \<and> field2 (U ''savings_opportunities'') (U ''estimated_savings_range'')
       (analysisData (U ''Sorry, I cannot process this.'')) = Some (JStr (U ''15-25%''))
   \<and> field2 (U ''executive_summary'') (U ''current_premium'')
       (analysisData (U ''Sorry, I cannot process this.'')) = Some (JStr (U ''Analysis completed''))
   \<and> field2 (U ''savings_opportunities'') (U ''immediate_actions'')
       (analysisData (U ''Sorry, I cannot process this.'')) =
       Some (JArr [JStr (U ''Review classification codes for accuracy''),
                   JStr (U ''Verify payroll calculations''),
                   JStr (U ''Check experience modification factor'')])\<close>
  using fallback_defaults [OF prose_falls_back] prose_falls_back by simp

text \<open>
  A reply without an opening brace always takes the way of the \<^verbatim>\<open>catch\<close> block: neither
  the removal of the fences nor \<^verbatim>\<open>trim\<close> brings a brace in.
\<close>

lemma set_replace_all_empty: "set (replace_all_empty re s) \<subseteq> set s"
proof (induction re s rule: replace_all_empty.induct)
  case (1 re)
  show ?case by simp
next
  case (2 re x xs)
  show ?case
  proof (cases "match_here re (x # xs)")
    case None
    with "2.IH"(1) show ?thesis by auto
  next
    case (Some m)
    show ?thesis
    proof (cases m)
      case 0
      with Some "2.IH"(2) show ?thesis by auto
    next
      case (Suc n)
      with Some "2.IH"(3) have "set (replace_all_empty re (drop n xs)) \<subseteq> set (drop n xs)"
        by simp
      moreover have "set (drop n xs) \<subseteq> set xs"
        by (rule set_drop_subset)
      ultimately show ?thesis
        using Some Suc by auto
    qed
  qed
qed

lemma set_trim: "set (trim s) \<subseteq> set s"
proof -
  have "set (trim s) \<subseteq> set (rev (dropWhile is_white_space s))"
    unfolding trim_def set_rev by (auto dest: set_dropWhileD)
  also have "\<dots> \<subseteq> set s"
    by (auto dest: set_dropWhileD)
  finally show ?thesis .
qed

lemma set_cleanedResult: "set (cleanedResult s) \<subseteq> set s"
  unfolding cleanedResult_def
  using set_trim set_replace_all_empty by (meson subset_trans)

lemma search_no_brace: "0x7B \<notin> set s \<Longrightarrow> search braces s = None"
  by (induction s) (simp_all add: braces_def)

lemma braceless_falls_back:
  assumes "0x7B \<notin> set analysisResult"
  shows "try_parse analysisResult = None"
proof -
  from assms set_cleanedResult [of analysisResult]
  have "0x7B \<notin> set (cleanedResult analysisResult)"
    by blast
  then show ?thesis
    by (simp add: try_parse_def jsonMatch_def str_match_def search_no_brace)
qed

text \<open>
  Claim C3, as the code has it. For every reply in which the \<^verbatim>\<open>try\<close> block finds no
  span from a brace to a brace, or finds one that \<^verbatim>\<open>JSON.parse\<close> rejects, the result
  has a confidence score, a list of actions that is not empty, and the whole reply
  as \<^verbatim>\<open>full_analysis_text\<close>. The empty reply is one of them.
\<close>

theorem unparsed_reply_result:
  assumes "try_parse analysisResult = None"
  shows \<open>(\<exists>score. field2 (U ''executive_summary'') (U ''confidence_score'')
                     (analysisData analysisResult) = Some (JNum score))
         \<and> (\<exists>action actions.
               field2 (U ''savings_opportunities'') (U ''immediate_actions'')
                 (analysisData analysisResult) = Some (JArr (action # actions)))
         \<and> field (U ''full_analysis_text'') (analysisData analysisResult) =
             Some (JStr analysisResult)\<close>
  using assms by (simp add: analysisData_def fallback_def field2_def U_def)

theorem unparsed_reply_result_witness:
  \<open>try_parse [] = None
   \<and> (\<exists>score. field2 (U ''executive_summary'') (U ''confidence_score'') (analysisData []) =
                Some (JNum score))
   \<and> (\<exists>action actions.
         field2 (U ''savings_opportunities'') (U ''immediate_actions'') (analysisData []) =
           Some (JArr (action # actions)))
   \<and> field (U ''full_analysis_text'') (analysisData []) = Some (JStr [])\<close>
proof -
  have h: "try_parse [] = None"
    by (rule braceless_falls_back) simp
  from unparsed_reply_result [OF h] h show ?thesis
    by simp
qed

text \<open>
  Claim C3 as stated fails for the truncated JSON text \<^verbatim>\<open>[{"a":1},{"b":2\<close>:
  \<^verbatim>\<open>JSON.parse\<close> rejects the text, but the span from its first opening brace to its
  last closing brace is \<^verbatim>\<open>{"a":1}\<close>, which parses and is the result, with none of the
  three fields.
\<close>

theorem truncated_array_not_fallback:
  \<open>JSON_parse (U ''[{"a":1},{"b":2'') = None
   \<and> analysisData (U ''[{"a":1},{"b":2'') = JObj [(U ''a'', JNum 1)]
   \<and> field (U ''executive_summary'') (analysisData (U ''[{"a":1},{"b":2'')) = None
   \<and> field (U ''savings_opportunities'') (analysisData (U ''[{"a":1},{"b":2'')) = None
   \<and> field (U ''full_analysis_text'') (analysisData (U ''[{"a":1},{"b":2'')) = None\<close>
  by (simp add: result_defs scan_defs U_def)

text \<open>
  The expression \<^verbatim>\<open>/\{[\s\S]*\}/\<close> on a text with an opening brace and a closing brace
  behind it: the match starts at the first opening brace, and the star gives back
  code units until the last closing brace.
\<close>

lemma star_brace_none: "0x7D \<notin> set s \<Longrightarrow> match_here [AnyStar, Lit 0x7D] s = None"
  by (induction s) simp_all

lemma star_brace_last:
  "0x7D \<notin> set post \<Longrightarrow>
     match_here [AnyStar, Lit 0x7D] (mid @ 0x7D # post) = Some (Suc (length mid))"
  by (induction mid) (simp_all add: star_brace_none)

lemma search_braces:
  assumes "0x7B \<notin> set pre" and "0x7D \<notin> set post"
  shows "search braces (pre @ 0x7B # mid @ 0x7D # post) = Some (length pre, Suc (Suc (length mid)))"
  using assms
proof (induction pre)
  case Nil
  then show ?case
    by (simp add: braces_def star_brace_last)
next
  case (Cons x pre)
  then have "x \<noteq> 0x7B"
    by auto
  then have "match_here braces ((x # pre) @ 0x7B # mid @ 0x7D # post) = None"
    by (simp add: braces_def)
  with Cons show ?case
    by simp
qed

lemma jsonMatch_decomposed:
  assumes "0x7B \<notin> set pre" and "0x7D \<notin> set post"
  shows "jsonMatch (pre @ 0x7B # mid @ 0x7D # post) = Some (0x7B # mid @ [0x7D])"
  by (simp add: jsonMatch_def str_match_def search_braces [OF assms])

lemma indices_decomposed:
  assumes "0x7B \<notin> set pre" and "0x7D \<notin> set post"
  shows "first_index 0x7B (pre @ 0x7B # mid @ 0x7D # post) = length pre"
    and "last_index 0x7D (pre @ 0x7B # mid @ 0x7D # post) = Suc (length pre + length mid)"
proof -
  from assms have all: "\<forall>x\<in>set pre. x \<noteq> 0x7B" "\<forall>x\<in>set (rev post). x \<noteq> 0x7D"
    by auto
  have "takeWhile (\<lambda>x. x \<noteq> 0x7B) (pre @ 0x7B # mid @ 0x7D # post) = pre"
    using all(1) by (simp add: takeWhile_tail)
  then show "first_index 0x7B (pre @ 0x7B # mid @ 0x7D # post) = length pre"
    by (simp add: first_index_def)
  have "rev (pre @ 0x7B # mid @ 0x7D # post) = rev post @ 0x7D # (rev mid @ 0x7B # rev pre)"
    by simp
  moreover have "takeWhile (\<lambda>x. x \<noteq> 0x7D) (rev post @ 0x7D # (rev mid @ 0x7B # rev pre)) = rev post"
    using all(2) by (simp add: takeWhile_tail)
  ultimately show "last_index 0x7D (pre @ 0x7B # mid @ 0x7D # post) = Suc (length pre + length mid)"
    by (simp add: last_index_def)
qed

lemma widest_span_decomposed:
  assumes "0x7B \<notin> set pre" and "0x7D \<notin> set post"
  shows "widest_span (pre @ 0x7B # mid @ 0x7D # post) = 0x7B # mid @ [0x7D]"
  unfolding widest_span_def indices_decomposed [OF assms]
  by simp

lemma brace_pair_decomposition:
  fixes s :: jsstring
  assumes "i < j" and "j < length s" and "s ! i = 0x7B" and "s ! j = 0x7D"
  obtains pre mid post where "s = pre @ 0x7B # mid @ 0x7D # post"
    and "0x7B \<notin> set pre" and "0x7D \<notin> set post" and "length pre \<le> i"
    and "j \<le> Suc (length pre + length mid)"
proof -
  define pre where "pre = takeWhile (\<lambda>x. x \<noteq> 0x7B) s"
  define tl1 where "tl1 = dropWhile (\<lambda>x. x \<noteq> 0x7B) s"
  have s: "s = pre @ tl1"
    by (simp add: pre_def tl1_def)
  have pre: "0x7B \<notin> set pre"
    by (auto simp: pre_def dest: set_takeWhileD)
  have le: "length pre \<le> i"
  proof (rule ccontr)
    assume "\<not> length pre \<le> i"
    then have "i < length pre" by simp
    then have "pre ! i = s ! i" "pre ! i \<in> set pre"
      by (simp_all add: s nth_append)
    with assms(3) pre show False by simp
  qed
  have "0x7B \<in> set s"
    using assms by (metis nth_mem order.strict_trans)
  then have "tl1 \<noteq> []"
    by (auto simp: tl1_def)
  then obtain rest where tl1: "tl1 = 0x7B # rest"
    using hd_dropWhile [of "\<lambda>x. x \<noteq> 0x7B" s] by (cases tl1) (auto simp: tl1_def)
  have len: "length s = Suc (length pre + length rest)"
    by (simp add: s tl1)
  have "rest ! (j - Suc (length pre)) = s ! j"
    using le assms(1) by (simp add: s tl1 nth_append)
  moreover have "j - Suc (length pre) < length rest"
    using le assms(1,2) len by simp
  ultimately have "0x7D \<in> set rest"
    using assms(4) by (metis nth_mem)
  then obtain mid post where rest: "rest = mid @ 0x7D # post" and post: "0x7D \<notin> set post"
    by (meson split_list_last)
  have "j \<le> Suc (length pre + length mid)"
  proof (rule ccontr)
    assume "\<not> j \<le> Suc (length pre + length mid)"
    then have gt: "Suc (length pre + length mid) < j" by simp
    have front: "s = (pre @ 0x7B # mid @ [0x7D]) @ post"
      by (simp add: s tl1 rest)
    have "s ! j = post ! (j - length (pre @ 0x7B # mid @ [0x7D]))"
      unfolding front using gt by (subst nth_append) simp
    then have "s ! j = post ! (j - Suc (Suc (length pre + length mid)))"
      by simp
    moreover have "j - Suc (Suc (length pre + length mid)) < length post"
      using gt assms(2) by (simp add: s tl1 rest)
    ultimately have "s ! j \<in> set post"
      by simp
    with assms(4) post show False by simp
  qed
  with that [of pre mid post] s tl1 rest pre post le show thesis
    by simp
qed

text \<open>
  Claim C6. For every cleaned text with an opening brace at some index \<open>i\<close> and a
  closing brace at a later index \<open>j\<close>, the match is the substring from the first
  opening brace to the last closing brace of the cleaned text; it reaches over \<open>i\<close>
  and \<open>j\<close>, and the \<^verbatim>\<open>try\<close> block gives exactly this span to \<^verbatim>\<open>JSON.parse\<close>.
\<close>

theorem widest_brace_span:
  assumes "cleaned = cleanedResult analysisResult"
    and "i < j" and "j < length cleaned" and "cleaned ! i = 0x7B" and "cleaned ! j = 0x7D"
  shows "jsonMatch cleaned = Some (widest_span cleaned)
         \<and> first_index 0x7B cleaned \<le> i \<and> j \<le> last_index 0x7D cleaned
         \<and> try_parse analysisResult = JSON_parse (widest_span cleaned)"
proof -
  from assms(2-5) obtain pre mid post where s: "cleaned = pre @ 0x7B # mid @ 0x7D # post"
    and pre: "0x7B \<notin> set pre" and post: "0x7D \<notin> set post" and i: "length pre \<le> i"
    and j: "j \<le> Suc (length pre + length mid)"
    by (rule brace_pair_decomposition)
  have m: "jsonMatch cleaned = Some (widest_span cleaned)"
    unfolding s by (simp only: jsonMatch_decomposed [OF pre post] widest_span_decomposed [OF pre post])
  moreover have "first_index 0x7B cleaned \<le> i" "j \<le> last_index 0x7D cleaned"
    unfolding s using i j by (simp_all only: indices_decomposed [OF pre post])
  moreover have "try_parse analysisResult = JSON_parse (widest_span cleaned)"
    using m assms(1) by (simp add: try_parse_def)
  ultimately show ?thesis
    by simp
qed

lemma two_objects_cleaned:
  \<open>cleanedResult (U ''x{"a":1}y{"b":2}z'') = U ''x{"a":1}y{"b":2}z''\<close>
  by (simp add: cleanedResult_def trim_def is_white_space_def fence_def fence_json_def U_def)

theorem widest_brace_span_witness:
  \<open>(1::nat) < 7
   \<and> 7 < length (cleanedResult (U ''x{"a":1}y{"b":2}z''))
   \<and> cleanedResult (U ''x{"a":1}y{"b":2}z'') ! 1 = 0x7B
   \<and> cleanedResult (U ''x{"a":1}y{"b":2}z'') ! 7 = 0x7D
   \<and> jsonMatch (cleanedResult (U ''x{"a":1}y{"b":2}z'')) =
       Some (widest_span (cleanedResult (U ''x{"a":1}y{"b":2}z'')))
   \<and> first_index 0x7B (cleanedResult (U ''x{"a":1}y{"b":2}z'')) \<le> 1
   \<and> 7 \<le> last_index 0x7D (cleanedResult (U ''x{"a":1}y{"b":2}z''))
   \<and> try_parse (U ''x{"a":1}y{"b":2}z'') =
       JSON_parse (widest_span (cleanedResult (U ''x{"a":1}y{"b":2}z'')))
   \<and> widest_span (cleanedResult (U ''x{"a":1}y{"b":2}z'')) = U ''{"a":1}y{"b":2}''\<close>
proof -
  let ?c = \<open>cleanedResult (U ''x{"a":1}y{"b":2}z'')\<close>
  have h1: "(1::nat) < 7"
    by simp
  have h2: "7 < length ?c"
    unfolding two_objects_cleaned by (simp add: U_def)
  have h3: "?c ! 1 = 0x7B"
    unfolding two_objects_cleaned by (simp add: U_def)
  have h4: "?c ! 7 = 0x7D"
    unfolding two_objects_cleaned by (simp add: U_def)
  have w: \<open>widest_span ?c = U ''{"a":1}y{"b":2}''\<close>
    unfolding two_objects_cleaned
    by (simp add: widest_span_def first_index_def last_index_def U_def)
  from widest_brace_span [OF refl h1 h2 h3 h4] h1 h2 h3 h4 w show ?thesis
    by simp
qed

subsection \<open>The result in the answer\<close>

text \<open>An answer with status 200 and a body comes from the end of the \<^verbatim>\<open>try\<close> block only.\<close>

lemma analyze_answer:
  assumes "analyze w fileContent fileName = (evs, Inr answer)"
  obtains openaiApiKey analysisResult where
    "env_OPENAI_API_KEY w = Some openaiApiKey"
    and "completion w
           (chat openaiApiKey (userContent (fileExtension fileName) fileName fileContent)) =
         Inr analysisResult"
    and "answer = json_response 200
           (success_body w fileName (fileExtension fileName) (analysisData analysisResult))"
  using assms
  by (auto simp: analyze_def Let_def split: option.splits if_splits sum.splits)

lemma try_block_answer:
  assumes "try_block w = (evs, Inr answer)" and "status_code answer = 200"
  obtains policyFile fileContent fileName openaiApiKey analysisResult where
    "form_parse w = Inr (Some policyFile)"
    and "readFileSync w (filepath policyFile) = Inr fileContent"
    and "originalFilename policyFile = Some fileName"
    and "env_OPENAI_API_KEY w = Some openaiApiKey"
    and "completion w
           (chat openaiApiKey (userContent (fileExtension fileName) fileName fileContent)) =
         Inr analysisResult"
    and "answer = json_response 200
           (success_body w fileName (fileExtension fileName) (analysisData analysisResult))"
proof -
  from assms obtain policyFile where pf: "form_parse w = Inr (Some policyFile)"
    by (auto simp: try_block_def json_response_def split: sum.splits option.splits)
  with assms obtain fileContent where fc: "readFileSync w (filepath policyFile) = Inr fileContent"
    by (auto simp: try_block_def split: sum.splits)
  with pf assms obtain fileName where fn: "originalFilename policyFile = Some fileName"
    by (auto simp: try_block_def split: option.splits)
  with pf fc assms obtain evs' where "analyze w fileContent fileName = (evs', Inr answer)"
    by (auto simp: try_block_def split: prod.splits)
  then obtain openaiApiKey analysisResult where
    "env_OPENAI_API_KEY w = Some openaiApiKey"
    "completion w
       (chat openaiApiKey (userContent (fileExtension fileName) fileName fileContent)) =
     Inr analysisResult"
    "answer = json_response 200
       (success_body w fileName (fileExtension fileName) (analysisData analysisResult))"
    by (rule analyze_answer)
  with pf fc fn that show thesis
    by blast
qed

lemma handler_200:
  assumes "handler w req = (evs, answer)" and "status_code answer = 200"
    and "body answer = Some b"
  shows "try_block w = (evs, Inr answer)"
  using assms
  by (auto simp: handler_def json_response_def split: if_splits prod.splits sum.splits)

lemma answer_data_of_success:
  \<open>answer_data (json_response n (success_body w fileName ext d)) = Some d\<close>
  by (simp add: answer_data_def json_response_def success_body_def U_def)

lemma data_of_success_body: \<open>field (U ''data'') (success_body w fileName ext d) = Some d\<close>
  by (simp add: success_body_def U_def)

text \<open>
  Claim C2, as the code has it. For every run that answers 200 with a body, a file was
  uploaded and read, the model key is set, and the call of the model with the content
  for this file returned a reply; the \<^verbatim>\<open>data\<close> of the answer is the result made from
  this reply. Where the \<^verbatim>\<open>try\<close> block threw on the reply, \<^verbatim>\<open>data\<close> is the object of the
  \<^verbatim>\<open>catch\<close> block, with \<^verbatim>\<open>executive_summary.savings_potential\<close> ``15-25%'' and
  \<^verbatim>\<open>executive_summary.confidence_score\<close> 85; where the span of the reply parsed,
  \<^verbatim>\<open>data\<close> is the parsed value as it is.
\<close>

theorem answer_data_shape:
  assumes "handler w req = (evs, answer)" and "status_code answer = 200"
    and "body answer = Some b"
  shows \<open>\<exists>policyFile fileContent fileName openaiApiKey analysisResult.
           form_parse w = Inr (Some policyFile)
           \<and> readFileSync w (filepath policyFile) = Inr fileContent
           \<and> originalFilename policyFile = Some fileName
           \<and> env_OPENAI_API_KEY w = Some openaiApiKey
           \<and> completion w
                (chat openaiApiKey
                   (userContent (fileExtension fileName) fileName fileContent)) =
               Inr analysisResult
           \<and> (case try_parse analysisResult of
                 Some parsed \<Rightarrow> answer_data answer = Some parsed
               | None \<Rightarrow>
                   answer_data answer = Some (fallback analysisResult)
                   \<and> Option.bind (answer_data answer)
                         (field2 (U ''executive_summary'') (U ''savings_potential'')) =
                       Some (JStr (U ''15-25%''))
                   \<and> Option.bind (answer_data answer)
                         (field2 (U ''executive_summary'') (U ''confidence_score'')) =
                       Some (JNum 85))\<close>
proof -
  from assms have "try_block w = (evs, Inr answer)"
    by (rule handler_200)
  from this assms(2) obtain policyFile fileContent fileName openaiApiKey analysisResult where
    run: "form_parse w = Inr (Some policyFile)"
      "readFileSync w (filepath policyFile) = Inr fileContent"
      "originalFilename policyFile = Some fileName"
      "env_OPENAI_API_KEY w = Some openaiApiKey"
      "completion w
         (chat openaiApiKey (userContent (fileExtension fileName) fileName fileContent)) =
       Inr analysisResult"
    and answer: "answer = json_response 200
           (success_body w fileName (fileExtension fileName) (analysisData analysisResult))"
    by (rule try_block_answer)
  have data: "answer_data answer = Some (analysisData analysisResult)"
    unfolding answer by (rule answer_data_of_success)
  have \<open>case try_parse analysisResult of
          Some parsed \<Rightarrow> answer_data answer = Some parsed
        | None \<Rightarrow>
            answer_data answer = Some (fallback analysisResult)
            \<and> Option.bind (answer_data answer)
                  (field2 (U ''executive_summary'') (U ''savings_potential'')) =
                Some (JStr (U ''15-25%''))
            \<and> Option.bind (answer_data answer)
                  (field2 (U ''executive_summary'') (U ''confidence_score'')) =
                Some (JNum 85)\<close>
    unfolding data
    by (simp add: analysisData_def fallback_def field2_def U_def split: option.splits)
  with run show ?thesis
    by blast
qed

text \<open>The run of the example world: a PDF is uploaded and the model answers \<open>reply\<close>.\<close>

lemma demo_completion: \<open>completion (demo_world upload reply) request = Inr reply\<close>
  by (simp add: completion_def demo_world_def reply_content_def)

lemma demo_run:
  \<open>handler (demo_world (Some demo_upload) reply) demo_request =
     ([ParseForm, ReadFile (U ''/tmp/upload_1''),
       Fetch (chat (U ''sk-demo'')
                (userContent (fileExtension (U ''policy.pdf'')) (U ''policy.pdf'')
                   [0x4D, 0x61, 0x6E]))],
      json_response 200
        (success_body (demo_world (Some demo_upload) reply) (U ''policy.pdf'')
           (fileExtension (U ''policy.pdf'')) (analysisData reply)))\<close>
proof -
  have m: \<open>U ''POST'' \<noteq> U ''OPTIONS''\<close> \<open>U ''sk-demo'' \<noteq> []\<close>
    by (simp_all add: U_def)
  have \<open>completion (demo_world (Some demo_upload) reply) request = Inr reply\<close> for request
    by (simp add: completion_def demo_world_def reply_content_def)
  then have \<open>analyze (demo_world (Some demo_upload) reply) [0x4D, 0x61, 0x6E] (U ''policy.pdf'') =
      ([Fetch (chat (U ''sk-demo'')
                (userContent (fileExtension (U ''policy.pdf'')) (U ''policy.pdf'')
                   [0x4D, 0x61, 0x6E]))],
       Inr (json_response 200
        (success_body (demo_world (Some demo_upload) reply) (U ''policy.pdf'')
           (fileExtension (U ''policy.pdf'')) (analysisData reply))))\<close>
    using m(2) by (simp add: analyze_def Let_def) (simp add: demo_world_def)
  then have \<open>try_block (demo_world (Some demo_upload) reply) =
     ([ParseForm, ReadFile (U ''/tmp/upload_1''),
       Fetch (chat (U ''sk-demo'')
                (userContent (fileExtension (U ''policy.pdf'')) (U ''policy.pdf'')
                   [0x4D, 0x61, 0x6E]))],
      Inr (json_response 200
        (success_body (demo_world (Some demo_upload) reply) (U ''policy.pdf'')
           (fileExtension (U ''policy.pdf'')) (analysisData reply))))\<close>
    by (simp add: try_block_def) (simp add: demo_world_def demo_upload_def)
  then show ?thesis
    using m(1) by (simp add: handler_def demo_request_def serverApiKey_def) (simp add: demo_world_def)
qed

lemma empty_object_parses: \<open>analysisData (U ''{}'') = JObj []\<close>
  by (simp add: result_defs scan_defs U_def)

theorem answer_data_shape_witness:
  \<open>status_code (snd (handler (demo_world (Some demo_upload) (U ''Sorry, I cannot process this.''))
                    demo_request)) = 200
   \<and> answer_data (snd (handler (demo_world (Some demo_upload) (U ''Sorry, I cannot process this.''))
                    demo_request)) = Some (fallback (U ''Sorry, I cannot process this.''))
   \<and> Option.bind
       (answer_data (snd (handler (demo_world (Some demo_upload) (U ''Sorry, I cannot process this.''))
                           demo_request)))
       (field2 (U ''executive_summary'') (U ''savings_potential'')) = Some (JStr (U ''15-25%''))
   \<and> Option.bind
       (answer_data (snd (handler (demo_world (Some demo_upload) (U ''Sorry, I cannot process this.''))
                           demo_request)))
       (field2 (U ''executive_summary'') (U ''confidence_score'')) = Some (JNum 85)\<close>
proof -
  let ?w = \<open>demo_world (Some demo_upload) (U ''Sorry, I cannot process this.'')\<close>
  let ?run = "handler ?w demo_request"
  have h1: "?run = (fst ?run, snd ?run)"
    by simp
  have h2: "status_code (snd ?run) = 200"
    by (simp add: demo_run json_response_def)
  have h3: \<open>body (snd ?run) =
      Some (success_body ?w (U ''policy.pdf'') (fileExtension (U ''policy.pdf''))
              (analysisData (U ''Sorry, I cannot process this.'')))\<close>
    by (simp add: demo_run json_response_def)
  from answer_data_shape [OF h1 h2 h3] obtain request analysisResult where
    c: "completion ?w request = Inr analysisResult"
    and shape: \<open>case try_parse analysisResult of
          Some parsed \<Rightarrow> answer_data (snd ?run) = Some parsed
        | None \<Rightarrow>
            answer_data (snd ?run) = Some (fallback analysisResult)
            \<and> Option.bind (answer_data (snd ?run))
                  (field2 (U ''executive_summary'') (U ''savings_potential'')) =
                Some (JStr (U ''15-25%''))
            \<and> Option.bind (answer_data (snd ?run))
                  (field2 (U ''executive_summary'') (U ''confidence_score'')) =
                Some (JNum 85)\<close>
    by blast
  from c have \<open>analysisResult = U ''Sorry, I cannot process this.''\<close>
    by (simp add: demo_completion)
  with shape prose_falls_back h2 show ?thesis
    by (simp add: fallback_def field2_def U_def)
qed

text \<open>
  Claim C2 as stated fails when the model answers \<^verbatim>\<open>{}\<close>: the reply parses, the run
  answers 200, and the \<^verbatim>\<open>data\<close> of the answer is the empty object, without
  \<^verbatim>\<open>executive_summary\<close>.
\<close>

theorem parsed_reply_without_summary:
  \<open>status_code (snd (handler (demo_world (Some demo_upload) (U ''{}'')) demo_request)) = 200
   \<and> answer_data (snd (handler (demo_world (Some demo_upload) (U ''{}'')) demo_request)) =
       Some (JObj [])
   \<and> field (U ''executive_summary'') (JObj []) = None
   \<and> field2 (U ''executive_summary'') (U ''savings_potential'') (JObj []) = None
   \<and> field2 (U ''executive_summary'') (U ''confidence_score'') (JObj []) = None\<close>
  by (simp add: demo_run json_response_def answer_data_def data_of_success_body
      empty_object_parses field2_def)

end
